theory Spec2Isabelle
  imports Main "HOL-Library.Word"
begin

section \<open>Types of the WebRTC API that the client uses\<close>

text \<open>
  The client (\<^verbatim>\<open>voip_client.cc\<close>) is written against the WebRTC library. The
  library's types appear here only as far as the client reads or writes them.
  \<^verbatim>\<open>GetLocalIPAddress\<close>, which opens a socket to ask the network for the local
  address, and the window code are left out.
  \<^item> \<^verbatim>\<open>webrtc::ChannelId\<close> is an enum class over \<^verbatim>\<open>int\<close> with no enumerators: a number.
  \<^item> \<^verbatim>\<open>webrtc::VoipResult\<close> is the status every engine call returns; the client
    only ever compares it with \<^verbatim>\<open>kOk\<close>.
  \<^item> \<^verbatim>\<open>webrtc::SdpAudioFormat\<close> carries the codec name the client compares;
    \<^verbatim>\<open>webrtc::AudioCodecSpec\<close> has the field \<^verbatim>\<open>format\<close>.
  \<^item> \<^verbatim>\<open>rtc::SocketAddress(ip, port)\<close> is kept as the pair of arguments the
    client constructs it from; the port is a C++ \<^verbatim>\<open>int\<close>, a 32-bit word read as
    signed, and \<^verbatim>\<open>port_number + 1\<close> is the machine addition.
\<close>

type_synonym ChannelId = int

datatype VoipResult = kOk | kInvalidArgument | kFailedPrecondition | kInternal

record SdpAudioFormat =
  name :: string
  clockrate_hz :: int
  num_channels :: nat

record AudioCodecSpec =
  format :: SdpAudioFormat

datatype SocketAddress = SocketAddress string "32 word"

text \<open>The two member functions that \<^verbatim>\<open>StartSession\<close> connects to \<^verbatim>\<open>SignalReadPacket\<close>.\<close>

datatype slot = OnSignalReadRTPPacket_slot | OnSignalReadRTCPPacket_slot

text \<open>
  An \<^verbatim>\<open>rtc::AsyncUDPSocket\<close> object: the address it was created on, the slot
  connected to its read signal, and whether \<^verbatim>\<open>Close()\<close> has been called on it.
\<close>

record AsyncUDPSocket =
  bind_address :: SocketAddress
  SignalReadPacket :: "slot option"
  is_closed :: bool

section \<open>Payload types\<close>

datatype PayloadType = kPcmu | kPcma | kG722 | kOpus | kIsac | kIlbc

fun PayloadType_value :: "PayloadType \<Rightarrow> int" where
  "PayloadType_value kPcmu = 0"
| "PayloadType_value kPcma = 8"
| "PayloadType_value kG722 = 9"
| "PayloadType_value kOpus = 96"
| "PayloadType_value kIsac = 97"
| "PayloadType_value kIlbc = 98"

text \<open>
  What ends a run: a null \<^verbatim>\<open>unique_ptr\<close> is dereferenced, an \<^verbatim>\<open>RTC_CHECK\<close> fails
  (the process aborts), or an \<^verbatim>\<open>RTC_DCHECK\<close> fails in a build that has them on.
\<close>

datatype fault = NullDereference | CheckFailed | DCheckFailed

text \<open>
  \<^verbatim>\<open>GetPayloadType\<close>. The first argument says whether \<^verbatim>\<open>RTC_DCHECK\<close> is
  compiled in. With it, a name outside the six aborts at the first line; without
  it, the chain of comparisons falls through to \<^verbatim>\<open>return -1\<close>.
\<close>

definition GetPayloadType :: "bool \<Rightarrow> string \<Rightarrow> fault + int" where
  "GetPayloadType dcheck_is_on codec_name =
     (if dcheck_is_on \<and>
         \<not> (codec_name = ''PCMU'' \<or> codec_name = ''PCMA'' \<or> codec_name = ''G722'' \<or>
            codec_name = ''opus'' \<or> codec_name = ''ISAC'' \<or> codec_name = ''ILBC'')
      then Inl DCheckFailed
      else if codec_name = ''PCMU'' then Inr (PayloadType_value kPcmu)
      else if codec_name = ''PCMA'' then Inr (PayloadType_value kPcma)
      else if codec_name = ''G722'' then Inr (PayloadType_value kG722)
      else if codec_name = ''opus'' then Inr (PayloadType_value kOpus)
      else if codec_name = ''ISAC'' then Inr (PayloadType_value kIsac)
      else if codec_name = ''ILBC'' then Inr (PayloadType_value kIlbc)
      else if dcheck_is_on then Inl DCheckFailed
      else Inr (- 1))"

section \<open>The client's state\<close>

text \<open>
  Tasks posted to \<^verbatim>\<open>voip_thread_\<close>. \<^verbatim>\<open>RUN_ON_VOIP_THREAD\<close> posts the
  \<^verbatim>\<open>std::bind\<close> of a public method and its arguments; the four packet lambdas
  own their \<^verbatim>\<open>packet_copy\<close>.
\<close>

datatype invocation =
    SetEncoder_call string
  | SetDecoders_call "string list"
  | SetLocalAddress_call string "32 word"
  | SetRemoteAddress_call string "32 word"
  | StartSession_call
  | StopSession_call
  | StartSend_call
  | StopSend_call
  | StartPlayout_call
  | StopPlayout_call

datatype task =
    Bound invocation
  | Task_SendRtpPacket "8 word list"
  | Task_SendRtcpPacket "8 word list"
  | Task_ReadRTPPacket "8 word list"
  | Task_ReadRTCPPacket "8 word list"

datatype sock = RTP | RTCP

text \<open>
  Everything the client does to its collaborators, in the order it does it: log
  lines, calls into the engine, calls on the sockets, and deliveries to the
  \<^verbatim>\<open>Callback\<close>.
\<close>

datatype event =
    Log string
  | Engine_CreateChannel ChannelId
  | Engine_ReleaseChannel ChannelId
  | Engine_StartSend ChannelId
  | Engine_StopSend ChannelId
  | Engine_StartPlayout ChannelId
  | Engine_StopPlayout ChannelId
  | Engine_SetSendCodec ChannelId int SdpAudioFormat
  | Engine_SetReceiveCodecs ChannelId "(int \<times> SdpAudioFormat) list"
  | Engine_ReceivedRTPPacket ChannelId "8 word list"
  | Engine_ReceivedRTCPPacket ChannelId "8 word list"
  | Socket_Create sock SocketAddress bool
  | Socket_Close sock
  | Socket_SendTo sock "8 word list" SocketAddress
  | Callback_OnStartSessionCompleted bool
  | Callback_OnStopSessionCompleted bool
  | Callback_OnStartSendCompleted bool
  | Callback_OnStopSendCompleted bool
  | Callback_OnStartPlayoutCompleted bool
  | Callback_OnStopPlayoutCompleted bool

text \<open>
  The members of \<^verbatim>\<open>VoipClient\<close> (\<^verbatim>\<open>voip_client.h\<close>), named as in the class
  without the trailing underscore, which an Isabelle name cannot end with.
  \<open>callback\<close> is the \<^verbatim>\<open>weak_ptr\<close>: \<open>True\<close> when \<^verbatim>\<open>callback_.lock()\<close> yields a
  subscriber. \<open>queue\<close> is the task queue of \<^verbatim>\<open>voip_thread_\<close>, \<open>trace\<close> the events
  so far. The engine itself is not part of the state: its answers are arguments
  of the operations.
\<close>

record VoipClient =
  callback :: bool
  supported_codecs :: "AudioCodecSpec list"
  channel :: "ChannelId option"
  rtp_socket :: "AsyncUDPSocket option"
  rtcp_socket :: "AsyncUDPSocket option"
  rtp_local_address :: SocketAddress
  rtcp_local_address :: SocketAddress
  rtp_remote_address :: SocketAddress
  rtcp_remote_address :: SocketAddress
  queue :: "task list"
  trace :: "event list"

text \<open>
  An operation either returns with the new state (\<open>Inr\<close>) or ends the run with a
  fault and the state reached at that point (\<open>Inl\<close>).
\<close>

type_synonym outcome = "(fault \<times> VoipClient) + VoipClient"

definition emit :: "event \<Rightarrow> VoipClient \<Rightarrow> VoipClient" where
  "emit e s = s\<lparr>trace := trace s @ [e]\<rparr>"

text \<open>\<^verbatim>\<open>auto callback = callback_.lock(); if (callback) { callback->... }\<close>\<close>

definition notify :: "event \<Rightarrow> VoipClient \<Rightarrow> VoipClient" where
  "notify e s = (if callback s then emit e s else s)"

definition PostTask :: "task \<Rightarrow> VoipClient \<Rightarrow> VoipClient" where
  "PostTask t s = s\<lparr>queue := queue s @ [t]\<rparr>"

text \<open>
  The macro \<^verbatim>\<open>RUN_ON_VOIP_THREAD\<close>: off the thread, the call is posted and returns;
  on it, the body runs.
\<close>

definition RUN_ON_VOIP_THREAD ::
  "bool \<Rightarrow> invocation \<Rightarrow> (VoipClient \<Rightarrow> outcome) \<Rightarrow> VoipClient \<Rightarrow> outcome" where
  "RUN_ON_VOIP_THREAD is_current m body s =
     (if \<not> is_current then Inr (PostTask (Bound m) s) else body s)"

text \<open>
  \<^verbatim>\<open>VoipClient::Create\<close>: the constructor leaves every member default-initialised
  and \<^verbatim>\<open>Init\<close> stores the encoder factory's list. No member function assigns
  \<^verbatim>\<open>callback_\<close>: a fresh client has no subscriber, and none of the operations
  below attaches one.
\<close>

definition Create :: "AudioCodecSpec list \<Rightarrow> VoipClient" where
  "Create codecs =
     \<lparr>callback = False, supported_codecs = codecs, channel = None,
      rtp_socket = None, rtcp_socket = None,
      rtp_local_address = SocketAddress [] 0, rtcp_local_address = SocketAddress [] 0,
      rtp_remote_address = SocketAddress [] 0, rtcp_remote_address = SocketAddress [] 0,
      queue = [], trace = []\<rparr>"

definition GetSupportedCodecs :: "VoipClient \<Rightarrow> string list" where
  "GetSupportedCodecs s = map (\<lambda>spec. name (format spec)) (supported_codecs s)"

section \<open>Codec selection\<close>

text \<open>The loop of \<^verbatim>\<open>SetEncoder\<close>: the first matching codec is sent and ends the loop.\<close>

fun SetEncoder_loop ::
  "bool \<Rightarrow> VoipResult \<Rightarrow> string \<Rightarrow> ChannelId \<Rightarrow> AudioCodecSpec list \<Rightarrow> VoipClient \<Rightarrow> outcome" where
  "SetEncoder_loop dcheck_is_on result encoder ch [] s = Inr s"
| "SetEncoder_loop dcheck_is_on result encoder ch (codec # rest) s =
     (if name (format codec) = encoder then
        (case GetPayloadType dcheck_is_on (name (format codec)) of
           Inl f \<Rightarrow> Inl (f, s)
         | Inr pt \<Rightarrow>
             let s1 = emit (Engine_SetSendCodec ch pt (format codec)) s
             in if result = kOk then Inr s1 else Inl (CheckFailed, s1))
      else SetEncoder_loop dcheck_is_on result encoder ch rest s)"

definition SetEncoder :: "bool \<Rightarrow> bool \<Rightarrow> VoipResult \<Rightarrow> string \<Rightarrow> VoipClient \<Rightarrow> outcome" where
  "SetEncoder dcheck_is_on is_current result encoder =
     RUN_ON_VOIP_THREAD is_current (SetEncoder_call encoder) (\<lambda>s.
       case channel s of
         None \<Rightarrow> Inr (emit (Log ''Channel has not been created'') s)
       | Some ch \<Rightarrow> SetEncoder_loop dcheck_is_on result encoder ch (supported_codecs s) s)"

text \<open>
  A \<^verbatim>\<open>std::map<int, SdpAudioFormat>\<close> is kept as the list of its entries in key
  order, which is the order the map iterates in. \<^verbatim>\<open>insert\<close> puts a new key in
  its place and leaves a key that is already bound as it is.
\<close>

fun map_insert :: "(int \<times> 'v) list \<Rightarrow> int \<Rightarrow> 'v \<Rightarrow> (int \<times> 'v) list" where
  "map_insert [] k v = [(k, v)]"
| "map_insert ((k', v') # m) k v =
     (if k = k' then (k', v') # m
      else if k < k' then (k, v) # (k', v') # m
      else (k', v') # map_insert m k v)"

fun SetDecoders_loop ::
  "bool \<Rightarrow> string list \<Rightarrow> AudioCodecSpec list \<Rightarrow> (int \<times> SdpAudioFormat) list \<Rightarrow>
   fault + (int \<times> SdpAudioFormat) list" where
  "SetDecoders_loop dcheck_is_on decoders [] decoder_specs = Inr decoder_specs"
| "SetDecoders_loop dcheck_is_on decoders (codec # rest) decoder_specs =
     (if name (format codec) \<in> set decoders then
        (case GetPayloadType dcheck_is_on (name (format codec)) of
           Inl f \<Rightarrow> Inl f
         | Inr pt \<Rightarrow>
             SetDecoders_loop dcheck_is_on decoders rest
               (map_insert decoder_specs pt (format codec)))
      else SetDecoders_loop dcheck_is_on decoders rest decoder_specs)"

definition SetDecoders ::
  "bool \<Rightarrow> bool \<Rightarrow> VoipResult \<Rightarrow> string list \<Rightarrow> VoipClient \<Rightarrow> outcome" where
  "SetDecoders dcheck_is_on is_current result decoders =
     RUN_ON_VOIP_THREAD is_current (SetDecoders_call decoders) (\<lambda>s.
       case channel s of
         None \<Rightarrow> Inr (emit (Log ''Channel has not been created'') s)
       | Some ch \<Rightarrow>
           (case SetDecoders_loop dcheck_is_on decoders (supported_codecs s) [] of
              Inl f \<Rightarrow> Inl (f, s)
            | Inr decoder_specs \<Rightarrow>
                let s1 = emit (Engine_SetReceiveCodecs ch decoder_specs) s
                in if result = kOk then Inr s1 else Inl (CheckFailed, s1)))"

section \<open>Addresses\<close>

definition SetLocalAddress :: "bool \<Rightarrow> string \<Rightarrow> 32 word \<Rightarrow> VoipClient \<Rightarrow> outcome" where
  "SetLocalAddress is_current ip_address port_number =
     RUN_ON_VOIP_THREAD is_current (SetLocalAddress_call ip_address port_number) (\<lambda>s.
       Inr (s\<lparr>rtp_local_address := SocketAddress ip_address port_number,
              rtcp_local_address := SocketAddress ip_address (port_number + 1)\<rparr>))"

definition SetRemoteAddress :: "bool \<Rightarrow> string \<Rightarrow> 32 word \<Rightarrow> VoipClient \<Rightarrow> outcome" where
  "SetRemoteAddress is_current ip_address port_number =
     RUN_ON_VOIP_THREAD is_current (SetRemoteAddress_call ip_address port_number) (\<lambda>s.
       Inr (s\<lparr>rtp_remote_address := SocketAddress ip_address port_number,
              rtcp_remote_address := SocketAddress ip_address (port_number + 1)\<rparr>))"

section \<open>Session start and stop\<close>

text \<open>
  \<^verbatim>\<open>rtc::AsyncUDPSocket::Create\<close> returns a null pointer when the socket cannot be
  created or bound; \<open>ok\<close> is that answer. \<^verbatim>\<open>reset\<close> stores the result either way.
\<close>

definition new_socket :: "SocketAddress \<Rightarrow> bool \<Rightarrow> AsyncUDPSocket option" where
  "new_socket addr ok =
     (if ok then Some \<lparr>bind_address = addr, SignalReadPacket = None, is_closed = False\<rparr>
      else None)"

definition connect :: "slot \<Rightarrow> AsyncUDPSocket option \<Rightarrow> AsyncUDPSocket option" where
  "connect h p = map_option (\<lambda>k. k\<lparr>SignalReadPacket := Some h\<rparr>) p"

text \<open>
  \<^verbatim>\<open>StartSession\<close>. \<open>new_channel\<close> is what \<^verbatim>\<open>CreateChannel\<close> returns, \<open>rtp_ok\<close> and
  \<open>rtcp_ok\<close> say whether the two socket creations succeed.
\<close>

definition StartSession :: "bool \<Rightarrow> ChannelId \<Rightarrow> bool \<Rightarrow> bool \<Rightarrow> VoipClient \<Rightarrow> outcome" where
  "StartSession is_current new_channel rtp_ok rtcp_ok =
     RUN_ON_VOIP_THREAD is_current StartSession_call (\<lambda>s.
       let s1 = emit (Engine_CreateChannel new_channel) s;
           s2 = s1\<lparr>channel := Some new_channel\<rparr>;
           s3 = emit (Socket_Create RTP (rtp_local_address s2) rtp_ok) s2;
           s4 = s3\<lparr>rtp_socket := new_socket (rtp_local_address s3) rtp_ok\<rparr>
       in if rtp_socket s4 = None then
            Inr (notify (Callback_OnStartSessionCompleted False)
                   (emit (Log ''Socket creation failed'') s4))
          else
            let s5 = s4\<lparr>rtp_socket := connect OnSignalReadRTPPacket_slot (rtp_socket s4)\<rparr>;
                s6 = emit (Socket_Create RTCP (rtcp_local_address s5) rtcp_ok) s5;
                s7 = s6\<lparr>rtcp_socket := new_socket (rtcp_local_address s6) rtcp_ok\<rparr>
            in if rtcp_socket s7 = None then
                 Inr (notify (Callback_OnStartSessionCompleted False)
                        (emit (Log ''Socket creation failed'') s7))
               else
                 let s8 = s7\<lparr>rtcp_socket :=
                               connect OnSignalReadRTCPPacket_slot (rtcp_socket s7)\<rparr>
                 in Inr (notify (Callback_OnStartSessionCompleted True) s8))"

text \<open>
  \<^verbatim>\<open>StopSession\<close>. The three results are the engine's answers to \<^verbatim>\<open>StopSend\<close>,
  \<^verbatim>\<open>StopPlayout\<close> and \<^verbatim>\<open>ReleaseChannel\<close>; \<^verbatim>\<open>||\<close> calls \<^verbatim>\<open>StopPlayout\<close> only when
  \<^verbatim>\<open>StopSend\<close> returned \<^verbatim>\<open>kOk\<close>. \<^verbatim>\<open>rtp_socket->Close()\<close> dereferences the pointer.
\<close>

definition StopSession ::
  "bool \<Rightarrow> VoipResult \<Rightarrow> VoipResult \<Rightarrow> VoipResult \<Rightarrow> VoipClient \<Rightarrow> outcome" where
  "StopSession is_current stop_send stop_playout release =
     RUN_ON_VOIP_THREAD is_current StopSession_call (\<lambda>s.
       case channel s of
         None \<Rightarrow>
           Inr (notify (Callback_OnStopSessionCompleted False)
                  (emit (Log ''Channel has not been created'') s))
       | Some ch \<Rightarrow>
           let s1 = emit (Engine_StopSend ch) s
           in if stop_send \<noteq> kOk then Inr (notify (Callback_OnStopSessionCompleted False) s1)
              else
                let s2 = emit (Engine_StopPlayout ch) s1
                in if stop_playout \<noteq> kOk
                   then Inr (notify (Callback_OnStopSessionCompleted False) s2)
                   else
                     (case rtp_socket s2 of
                        None \<Rightarrow> Inl (NullDereference, s2)
                      | Some rtp \<Rightarrow>
                          let s3 = emit (Socket_Close RTP)
                                     (s2\<lparr>rtp_socket := Some (rtp\<lparr>is_closed := True\<rparr>)\<rparr>)
                          in (case rtcp_socket s3 of
                                None \<Rightarrow> Inl (NullDereference, s3)
                              | Some rtcp \<Rightarrow>
                                  let s4 = emit (Socket_Close RTCP)
                                             (s3\<lparr>rtcp_socket :=
                                                   Some (rtcp\<lparr>is_closed := True\<rparr>)\<rparr>);
                                      s5 = emit (Engine_ReleaseChannel ch) s4
                                  in if release \<noteq> kOk then Inl (CheckFailed, s5)
                                     else
                                       Inr (notify (Callback_OnStopSessionCompleted False)
                                              (s5\<lparr>channel := None\<rparr>)))))"

section \<open>Send and playout\<close>

text \<open>
  The four toggles share one shape: without a channel, a log line and \<open>false\<close> to
  the callback; with one, the engine is called and whether it answered \<^verbatim>\<open>kOk\<close>
  goes to the callback.
\<close>

definition toggle ::
  "(ChannelId \<Rightarrow> event) \<Rightarrow> (bool \<Rightarrow> event) \<Rightarrow> VoipResult \<Rightarrow> VoipClient \<Rightarrow> outcome" where
  "toggle engine_call completed result s =
     (case channel s of
        None \<Rightarrow> Inr (notify (completed False) (emit (Log ''Channel has not been created'') s))
      | Some ch \<Rightarrow> Inr (notify (completed (result = kOk)) (emit (engine_call ch) s)))"

definition StartSend :: "bool \<Rightarrow> VoipResult \<Rightarrow> VoipClient \<Rightarrow> outcome" where
  "StartSend is_current result =
     RUN_ON_VOIP_THREAD is_current StartSend_call
       (toggle Engine_StartSend Callback_OnStartSendCompleted result)"

definition StopSend :: "bool \<Rightarrow> VoipResult \<Rightarrow> VoipClient \<Rightarrow> outcome" where
  "StopSend is_current result =
     RUN_ON_VOIP_THREAD is_current StopSend_call
       (toggle Engine_StopSend Callback_OnStopSendCompleted result)"

definition StartPlayout :: "bool \<Rightarrow> VoipResult \<Rightarrow> VoipClient \<Rightarrow> outcome" where
  "StartPlayout is_current result =
     RUN_ON_VOIP_THREAD is_current StartPlayout_call
       (toggle Engine_StartPlayout Callback_OnStartPlayoutCompleted result)"

definition StopPlayout :: "bool \<Rightarrow> VoipResult \<Rightarrow> VoipClient \<Rightarrow> outcome" where
  "StopPlayout is_current result =
     RUN_ON_VOIP_THREAD is_current StopPlayout_call
       (toggle Engine_StopPlayout Callback_OnStopPlayoutCompleted result)"

section \<open>Packets\<close>

text \<open>
  A \<^verbatim>\<open>const uint8_t*\<close> argument is the memory behind the pointer: byte \<open>i\<close> of it is
  \<open>packet i\<close>. \<^verbatim>\<open>std::vector<uint8_t> packet_copy(packet, packet + length)\<close> reads
  the bytes at offsets \<open>0\<close> to \<open>len - 1\<close>, where \<open>len\<close> is the argument \<^verbatim>\<open>length\<close>.
\<close>

definition copy_packet :: "(nat \<Rightarrow> 8 word) \<Rightarrow> nat \<Rightarrow> 8 word list" where
  "copy_packet packet len = map packet [0..<len]"

text \<open>
  \<^verbatim>\<open>SendRtpPacket\<close> and \<^verbatim>\<open>SendRtcpPacket\<close>. \<open>ret\<close> is the \<^verbatim>\<open>int\<close> that \<^verbatim>\<open>SendTo\<close>
  returns; \<^verbatim>\<open>!ret\<close> holds when it is zero.
\<close>

definition SendRtpPacket :: "int \<Rightarrow> 8 word list \<Rightarrow> VoipClient \<Rightarrow> outcome" where
  "SendRtpPacket ret packet_copy s =
     (case rtp_socket s of
        None \<Rightarrow> Inl (NullDereference, s)
      | Some _ \<Rightarrow>
          let s1 = emit (Socket_SendTo RTP packet_copy (rtp_remote_address s)) s
          in if ret = 0 then Inr (emit (Log ''Failed to send RTP packet'') s1) else Inr s1)"

definition SendRtcpPacket :: "int \<Rightarrow> 8 word list \<Rightarrow> VoipClient \<Rightarrow> outcome" where
  "SendRtcpPacket ret packet_copy s =
     (case rtcp_socket s of
        None \<Rightarrow> Inl (NullDereference, s)
      | Some _ \<Rightarrow>
          let s1 = emit (Socket_SendTo RTCP packet_copy (rtcp_remote_address s)) s
          in if ret = 0 then Inr (emit (Log ''Failed to send RTCP packet'') s1) else Inr s1)"

text \<open>
  \<^verbatim>\<open>SendRtp\<close> and \<^verbatim>\<open>SendRtcp\<close>, called by the engine: the value returned to the
  engine and the state with the task posted. Neither reads a member of the
  client, and \<^verbatim>\<open>SendRtp\<close> does not read its \<^verbatim>\<open>options\<close> argument.
\<close>

definition SendRtp :: "(nat \<Rightarrow> 8 word) \<Rightarrow> nat \<Rightarrow> VoipClient \<Rightarrow> bool \<times> VoipClient" where
  "SendRtp packet len s =
     (let packet_copy = copy_packet packet len
      in (True, PostTask (Task_SendRtpPacket packet_copy) s))"

definition SendRtcp :: "(nat \<Rightarrow> 8 word) \<Rightarrow> nat \<Rightarrow> VoipClient \<Rightarrow> bool \<times> VoipClient" where
  "SendRtcp packet len s =
     (let packet_copy = copy_packet packet len
      in (True, PostTask (Task_SendRtcpPacket packet_copy) s))"

definition ReadRTPPacket :: "VoipResult \<Rightarrow> 8 word list \<Rightarrow> VoipClient \<Rightarrow> outcome" where
  "ReadRTPPacket result packet_copy s =
     (case channel s of
        None \<Rightarrow> Inr (emit (Log ''Channel has not been created'') s)
      | Some ch \<Rightarrow>
          let s1 = emit (Engine_ReceivedRTPPacket ch packet_copy) s
          in if result = kOk then Inr s1 else Inl (CheckFailed, s1))"

definition ReadRTCPPacket :: "VoipResult \<Rightarrow> 8 word list \<Rightarrow> VoipClient \<Rightarrow> outcome" where
  "ReadRTCPPacket result packet_copy s =
     (case channel s of
        None \<Rightarrow> Inr (emit (Log ''Channel has not been created'') s)
      | Some ch \<Rightarrow>
          let s1 = emit (Engine_ReceivedRTCPPacket ch packet_copy) s
          in if result = kOk then Inr s1 else Inl (CheckFailed, s1))"

text \<open>
  The two slots. Of their arguments only the buffer and its size are read.
\<close>

definition OnSignalReadRTPPacket :: "(nat \<Rightarrow> 8 word) \<Rightarrow> nat \<Rightarrow> VoipClient \<Rightarrow> VoipClient" where
  "OnSignalReadRTPPacket rtp_packet sz s =
     (let packet_copy = copy_packet rtp_packet sz
      in PostTask (Task_ReadRTPPacket packet_copy) s)"

definition OnSignalReadRTCPPacket :: "(nat \<Rightarrow> 8 word) \<Rightarrow> nat \<Rightarrow> VoipClient \<Rightarrow> VoipClient" where
  "OnSignalReadRTCPPacket rtcp_packet sz s =
     (let packet_copy = copy_packet rtcp_packet sz
      in PostTask (Task_ReadRTCPPacket packet_copy) s)"

section \<open>Running the client\<close>

text \<open>
  What the engine and the socket layer answer during one step: the build's
  \<^verbatim>\<open>RTC_DCHECK_IS_ON\<close>, the channel \<^verbatim>\<open>CreateChannel\<close> returns, whether the two
  socket creations succeed, the status of each engine call, and the \<^verbatim>\<open>int\<close> that
  \<^verbatim>\<open>SendTo\<close> returns.
\<close>

record world =
  RTC_DCHECK_IS_ON :: bool
  CreateChannel_result :: ChannelId
  rtp_Create_ok :: bool
  rtcp_Create_ok :: bool
  StartSend_result :: VoipResult
  StopSend_result :: VoipResult
  StartPlayout_result :: VoipResult
  StopPlayout_result :: VoipResult
  ReleaseChannel_result :: VoipResult
  SetSendCodec_result :: VoipResult
  SetReceiveCodecs_result :: VoipResult
  ReceivedRTPPacket_result :: VoipResult
  ReceivedRTCPPacket_result :: VoipResult
  SendTo_result :: int

text \<open>A public method called where \<^verbatim>\<open>voip_thread_->IsCurrent()\<close> is \<open>is_current\<close>.\<close>

fun call :: "world \<Rightarrow> bool \<Rightarrow> invocation \<Rightarrow> VoipClient \<Rightarrow> outcome" where
  "call w is_current (SetEncoder_call encoder) =
     SetEncoder (RTC_DCHECK_IS_ON w) is_current (SetSendCodec_result w) encoder"
| "call w is_current (SetDecoders_call decoders) =
     SetDecoders (RTC_DCHECK_IS_ON w) is_current (SetReceiveCodecs_result w) decoders"
| "call w is_current (SetLocalAddress_call ip_address port_number) =
     SetLocalAddress is_current ip_address port_number"
| "call w is_current (SetRemoteAddress_call ip_address port_number) =
     SetRemoteAddress is_current ip_address port_number"
| "call w is_current StartSession_call =
     StartSession is_current (CreateChannel_result w) (rtp_Create_ok w) (rtcp_Create_ok w)"
| "call w is_current StopSession_call =
     StopSession is_current (StopSend_result w) (StopPlayout_result w) (ReleaseChannel_result w)"
| "call w is_current StartSend_call = StartSend is_current (StartSend_result w)"
| "call w is_current StopSend_call = StopSend is_current (StopSend_result w)"
| "call w is_current StartPlayout_call = StartPlayout is_current (StartPlayout_result w)"
| "call w is_current StopPlayout_call = StopPlayout is_current (StopPlayout_result w)"

text \<open>The thread runs a task: a bound method is called on the thread itself.\<close>

fun run_task :: "world \<Rightarrow> task \<Rightarrow> VoipClient \<Rightarrow> outcome" where
  "run_task w (Bound m) = call w True m"
| "run_task w (Task_SendRtpPacket packet_copy) = SendRtpPacket (SendTo_result w) packet_copy"
| "run_task w (Task_SendRtcpPacket packet_copy) = SendRtcpPacket (SendTo_result w) packet_copy"
| "run_task w (Task_ReadRTPPacket packet_copy) =
     ReadRTPPacket (ReceivedRTPPacket_result w) packet_copy"
| "run_task w (Task_ReadRTCPPacket packet_copy) =
     ReadRTCPPacket (ReceivedRTCPPacket_result w) packet_copy"

text \<open>
  One step of the whole program: a caller on another thread invokes a public
  member function, the engine hands over a packet to send, a socket signals a packet read,
  or \<^verbatim>\<open>voip_thread_\<close> takes the task at the head of its queue and runs it.
\<close>

datatype action =
    Invoke invocation
  | Engine_SendRtp "nat \<Rightarrow> 8 word" nat
  | Engine_SendRtcp "nat \<Rightarrow> 8 word" nat
  | Signal_ReadRTP "nat \<Rightarrow> 8 word" nat
  | Signal_ReadRTCP "nat \<Rightarrow> 8 word" nat
  | RunTask

fun step :: "world \<Rightarrow> action \<Rightarrow> VoipClient \<Rightarrow> outcome" where
  "step w (Invoke m) s = call w False m s"
| "step w (Engine_SendRtp packet len) s = Inr (snd (SendRtp packet len s))"
| "step w (Engine_SendRtcp packet len) s = Inr (snd (SendRtcp packet len s))"
| "step w (Signal_ReadRTP packet sz) s = Inr (OnSignalReadRTPPacket packet sz s)"
| "step w (Signal_ReadRTCP packet sz) s = Inr (OnSignalReadRTCPPacket packet sz s)"
| "step w RunTask s =
     (case queue s of [] \<Rightarrow> Inr s | t # rest \<Rightarrow> run_task w t (s\<lparr>queue := rest\<rparr>))"

fun run :: "(world \<times> action) list \<Rightarrow> VoipClient \<Rightarrow> outcome" where
  "run [] s = Inr s"
| "run ((w, a) # rest) s = (case step w a s of Inl f \<Rightarrow> Inl f | Inr s' \<Rightarrow> run rest s')"

text \<open>A world in which every engine call and every socket operation succeeds.\<close>

definition all_ok :: world where
  "all_ok =
     \<lparr>RTC_DCHECK_IS_ON = False, CreateChannel_result = 1,
      rtp_Create_ok = True, rtcp_Create_ok = True,
      StartSend_result = kOk, StopSend_result = kOk,
      StartPlayout_result = kOk, StopPlayout_result = kOk,
      ReleaseChannel_result = kOk, SetSendCodec_result = kOk,
      SetReceiveCodecs_result = kOk, ReceivedRTPPacket_result = kOk,
      ReceivedRTCPPacket_result = kOk, SendTo_result = 1\<rparr>"

section \<open>Concrete worlds, catalogs and states\<close>

definition rtp_bind_fails :: world where
  "rtp_bind_fails = all_ok\<lparr>rtp_Create_ok := False\<rparr>"

definition send_fails :: world where
  "send_fails = all_ok\<lparr>SendTo_result := - 1\<rparr>"

definition codec :: "string \<Rightarrow> int \<Rightarrow> nat \<Rightarrow> AudioCodecSpec" where
  "codec n hz ch = \<lparr>format = \<lparr>name = n, clockrate_hz = hz, num_channels = ch\<rparr>\<rparr>"

text \<open>
  A list as the built-in encoder factory gives it: one entry per format, so a
  codec offered at two clock rates has two entries under one name.
\<close>

definition builtin_codecs :: "AudioCodecSpec list" where
  "builtin_codecs =
     [codec ''opus'' 48000 2, codec ''ISAC'' 16000 1, codec ''ISAC'' 32000 1,
      codec ''G722'' 8000 1, codec ''ILBC'' 8000 1, codec ''PCMU'' 8000 1,
      codec ''PCMA'' 8000 1]"

text \<open>
  A client with a subscriber attached, local address 127.0.0.1:10000 and remote
  address 127.0.0.1:20000, after a \<^verbatim>\<open>StartSession\<close> in which both sockets were
  created.
\<close>

definition running_session :: VoipClient where
  "running_session =
     \<lparr>callback = True, supported_codecs = builtin_codecs, channel = Some 1,
      rtp_socket = Some \<lparr>bind_address = SocketAddress ''127.0.0.1'' 10000,
                         SignalReadPacket = Some OnSignalReadRTPPacket_slot,
                         is_closed = False\<rparr>,
      rtcp_socket = Some \<lparr>bind_address = SocketAddress ''127.0.0.1'' 10001,
                          SignalReadPacket = Some OnSignalReadRTCPPacket_slot,
                          is_closed = False\<rparr>,
      rtp_local_address = SocketAddress ''127.0.0.1'' 10000,
      rtcp_local_address = SocketAddress ''127.0.0.1'' 10001,
      rtp_remote_address = SocketAddress ''127.0.0.1'' 20000,
      rtcp_remote_address = SocketAddress ''127.0.0.1'' 20001,
      queue = [],
      trace = [Engine_CreateChannel 1,
               Socket_Create RTP (SocketAddress ''127.0.0.1'' 10000) True,
               Socket_Create RTCP (SocketAddress ''127.0.0.1'' 10001) True,
               Callback_OnStartSessionCompleted True]\<rparr>"

text \<open>Two runs of a fresh client, each call posted from another thread and then run.\<close>

definition failed_start :: "(world \<times> action) list" where
  "failed_start = [(rtp_bind_fails, Invoke StartSession_call), (rtp_bind_fails, RunTask)]"

definition start_then_stop :: "(world \<times> action) list" where
  "start_then_stop =
     [(all_ok, Invoke StartSession_call), (all_ok, RunTask),
      (all_ok, Invoke StopSession_call), (all_ok, RunTask)]"

section \<open>Predicates the properties are stated with\<close>

text \<open>Every member except the trace is the same in both states.\<close>

definition same_members :: "VoipClient \<Rightarrow> VoipClient \<Rightarrow> bool" where
  "same_members s s' = (s'\<lparr>trace := trace s\<rparr> = s)"

text \<open>
  A call that is turned down: it returns, the subscriber is told \<open>false\<close>, and no
  member has changed.
\<close>

definition StartSession_rejected :: "VoipClient \<Rightarrow> outcome \<Rightarrow> bool" where
  "StartSession_rejected s r =
     (case r of
        Inl _ \<Rightarrow> False
      | Inr s' \<Rightarrow> same_members s s' \<and> Callback_OnStartSessionCompleted False \<in> set (trace s'))"

text \<open>A socket pointer that is set, and one whose socket is also not closed.\<close>

definition present :: "AsyncUDPSocket option \<Rightarrow> bool" where
  "present p = (p \<noteq> None)"

definition is_open :: "AsyncUDPSocket option \<Rightarrow> bool" where
  "is_open p = (case p of None \<Rightarrow> False | Some k \<Rightarrow> \<not> is_closed k)"

text \<open>The channel handle is set exactly when both socket pointers are.\<close>

definition channel_iff_sockets :: "VoipClient \<Rightarrow> bool" where
  "channel_iff_sockets s =
     ((channel s \<noteq> None) = (present (rtp_socket s) \<and> present (rtcp_socket s)))"

text \<open>Without a channel handle neither socket is open.\<close>

definition open_socket_has_channel :: "VoipClient \<Rightarrow> bool" where
  "open_socket_has_channel s =
     (channel s = None \<longrightarrow> \<not> is_open (rtp_socket s) \<and> \<not> is_open (rtcp_socket s))"

text \<open>
  The payload types as the specification lists them, to compare with what
  \<^verbatim>\<open>GetPayloadType\<close> computes.
\<close>

definition spec_payload_table :: "(string \<times> int) list" where
  "spec_payload_table =
     [(''PCMU'', 0), (''PCMA'', 8), (''G722'', 9), (''opus'', 96), (''ISAC'', 97), (''ILBC'', 98)]"

text \<open>
  The pairs of payload type and format of the supported codecs whose name is in
  \<open>decoders\<close>, in the order of the codec list.
\<close>

definition requested_pairs ::
  "string list \<Rightarrow> AudioCodecSpec list \<Rightarrow> (int \<times> SdpAudioFormat) list" where
  "requested_pairs decoders codecs =
     concat (map (\<lambda>c. case map_of spec_payload_table (name (format c)) of
                         None \<Rightarrow> []
                       | Some pt \<Rightarrow> if name (format c) \<in> set decoders then [(pt, format c)] else [])
                 codecs)"

text \<open>The map handed to the engine holds exactly those pairs.\<close>

definition exactly_requested ::
  "(int \<times> SdpAudioFormat) list \<Rightarrow> string list \<Rightarrow> AudioCodecSpec list \<Rightarrow> bool" where
  "exactly_requested m decoders codecs = (set m = set (requested_pairs decoders codecs))"

text \<open>The state an outcome ends in, whether it returned or not.\<close>

definition state_of :: "outcome \<Rightarrow> VoipClient" where
  "state_of r = (case r of Inl (f, s) \<Rightarrow> s | Inr s \<Rightarrow> s)"

definition fault_of :: "outcome \<Rightarrow> fault option" where
  "fault_of r = (case r of Inl (f, s) \<Rightarrow> Some f | Inr s \<Rightarrow> None)"

section \<open>Calls off and on the thread\<close>

lemma off_thread:
  "SetEncoder d False r encoder s = Inr (PostTask (Bound (SetEncoder_call encoder)) s)"
  "SetDecoders d False r decoders s = Inr (PostTask (Bound (SetDecoders_call decoders)) s)"
  "SetLocalAddress False ip port s = Inr (PostTask (Bound (SetLocalAddress_call ip port)) s)"
  "SetRemoteAddress False ip port s = Inr (PostTask (Bound (SetRemoteAddress_call ip port)) s)"
  "StartSession False ch rtp_ok rtcp_ok s = Inr (PostTask (Bound StartSession_call) s)"
  "StopSession False r1 r2 r3 s = Inr (PostTask (Bound StopSession_call) s)"
  "StartSend False r s = Inr (PostTask (Bound StartSend_call) s)"
  "StopSend False r s = Inr (PostTask (Bound StopSend_call) s)"
  "StartPlayout False r s = Inr (PostTask (Bound StartPlayout_call) s)"
  "StopPlayout False r s = Inr (PostTask (Bound StopPlayout_call) s)"
  by (simp_all add: SetEncoder_def SetDecoders_def SetLocalAddress_def SetRemoteAddress_def
      StartSession_def StopSession_def StartSend_def StopSend_def StartPlayout_def
      StopPlayout_def RUN_ON_VOIP_THREAD_def)

text \<open>
  \<^verbatim>\<open>StartSession\<close> on the thread, in one equation: what it stores, what it does
  to the engine and the sockets, and what it tells the subscriber.
\<close>

lemma StartSession_on_thread:
  "StartSession True ch rtp_ok rtcp_ok s =
     Inr (notify (Callback_OnStartSessionCompleted (rtp_ok \<and> rtcp_ok))
       (s\<lparr>channel := Some ch,
          rtp_socket :=
            connect OnSignalReadRTPPacket_slot (new_socket (rtp_local_address s) rtp_ok),
          rtcp_socket :=
            (if rtp_ok
             then connect OnSignalReadRTCPPacket_slot (new_socket (rtcp_local_address s) rtcp_ok)
             else rtcp_socket s),
          trace :=
            trace s @ [Engine_CreateChannel ch, Socket_Create RTP (rtp_local_address s) rtp_ok]
              @ (if rtp_ok then [Socket_Create RTCP (rtcp_local_address s) rtcp_ok] else [])
              @ (if rtp_ok \<and> rtcp_ok then [] else [Log ''Socket creation failed''])\<rparr>))"
  by (cases rtp_ok; cases rtcp_ok)
     (simp_all add: StartSession_def RUN_ON_VOIP_THREAD_def new_socket_def connect_def
       emit_def notify_def Let_def)

text \<open>
  \<^verbatim>\<open>StopSession\<close> on the thread when the engine answers \<^verbatim>\<open>kOk\<close> three times
  and both socket pointers are set.
\<close>

lemma StopSession_on_thread_ok:
  assumes "channel s = Some ch" and "rtp_socket s = Some rtp" and "rtcp_socket s = Some rtcp"
  shows "StopSession True kOk kOk kOk s =
     Inr (notify (Callback_OnStopSessionCompleted False)
       (s\<lparr>channel := None,
          rtp_socket := Some (rtp\<lparr>is_closed := True\<rparr>),
          rtcp_socket := Some (rtcp\<lparr>is_closed := True\<rparr>),
          trace := trace s @ [Engine_StopSend ch, Engine_StopPlayout ch, Socket_Close RTP,
                              Socket_Close RTCP, Engine_ReleaseChannel ch]\<rparr>))"
  using assms
  by (simp add: StopSession_def RUN_ON_VOIP_THREAD_def emit_def notify_def Let_def)

lemma StopSession_null_rtp:
  "channel s = Some ch \<Longrightarrow> rtp_socket s = None \<Longrightarrow>
   StopSession True kOk kOk release s =
     Inl (NullDereference, emit (Engine_StopPlayout ch) (emit (Engine_StopSend ch) s))"
  by (simp add: StopSession_def RUN_ON_VOIP_THREAD_def emit_def Let_def)

text \<open>
  The state \<open>running_session\<close> is what a client with a subscriber reaches by
  setting both addresses and starting a session.
\<close>

lemma running_session_reached:
  "run [(all_ok, Invoke (SetLocalAddress_call ''127.0.0.1'' 10000)), (all_ok, RunTask),
        (all_ok, Invoke (SetRemoteAddress_call ''127.0.0.1'' 20000)), (all_ok, RunTask),
        (all_ok, Invoke StartSession_call), (all_ok, RunTask)]
     ((Create builtin_codecs)\<lparr>callback := True\<rparr>) = Inr running_session"
  by (simp add: running_session_def Create_def all_ok_def SetLocalAddress_def
      SetRemoteAddress_def StartSession_on_thread off_thread RUN_ON_VOIP_THREAD_def PostTask_def
      notify_def emit_def new_socket_def connect_def)

text \<open>A fresh client that starts a session and stops it again.\<close>

lemma start_then_stop_run:
  "run start_then_stop (Create codecs) =
     Inr ((Create codecs)
       \<lparr>channel := None,
        rtp_socket := Some \<lparr>bind_address = SocketAddress [] 0,
                            SignalReadPacket = Some OnSignalReadRTPPacket_slot,
                            is_closed = True\<rparr>,
        rtcp_socket := Some \<lparr>bind_address = SocketAddress [] 0,
                             SignalReadPacket = Some OnSignalReadRTCPPacket_slot,
                             is_closed = True\<rparr>,
        trace := [Engine_CreateChannel 1, Socket_Create RTP (SocketAddress [] 0) True,
                  Socket_Create RTCP (SocketAddress [] 0) True,
                  Engine_StopSend 1, Engine_StopPlayout 1, Socket_Close RTP,
                  Socket_Close RTCP, Engine_ReleaseChannel 1]\<rparr>)"
  by (simp add: start_then_stop_def all_ok_def off_thread StartSession_on_thread
      StopSession_on_thread_ok [where ch = 1] PostTask_def Create_def notify_def emit_def
      new_socket_def connect_def)

section \<open>What emitting, notifying and posting leave alone\<close>

lemma members_emit [simp]:
  "channel (emit e s) = channel s"
  "rtp_socket (emit e s) = rtp_socket s"
  "rtcp_socket (emit e s) = rtcp_socket s"
  "callback (emit e s) = callback s"
  "queue (emit e s) = queue s"
  by (simp_all add: emit_def)

lemma members_notify [simp]:
  "channel (notify e s) = channel s"
  "rtp_socket (notify e s) = rtp_socket s"
  "rtcp_socket (notify e s) = rtcp_socket s"
  "callback (notify e s) = callback s"
  "queue (notify e s) = queue s"
  by (simp_all add: notify_def)

lemma members_PostTask [simp]:
  "channel (PostTask t s) = channel s"
  "rtp_socket (PostTask t s) = rtp_socket s"
  "rtcp_socket (PostTask t s) = rtcp_socket s"
  "callback (PostTask t s) = callback s"
  "trace (PostTask t s) = trace s"
  by (simp_all add: PostTask_def)

lemma inv_emit [simp]: "open_socket_has_channel (emit e s) = open_socket_has_channel s"
  by (simp add: open_socket_has_channel_def)

lemma inv_notify [simp]: "open_socket_has_channel (notify e s) = open_socket_has_channel s"
  by (simp add: open_socket_has_channel_def)

lemma inv_PostTask [simp]: "open_socket_has_channel (PostTask t s) = open_socket_has_channel s"
  by (simp add: open_socket_has_channel_def)

lemma inv_queue [simp]:
  "open_socket_has_channel (s\<lparr>queue := q\<rparr>) = open_socket_has_channel s"
  by (simp add: open_socket_has_channel_def)

lemma SetEncoder_loop_inv:
  "SetEncoder_loop d r encoder ch cs s = Inr s' \<Longrightarrow>
   open_socket_has_channel s' = open_socket_has_channel s"
  by (induction cs) (auto simp add: Let_def split: if_splits sum.splits)

lemma SetEncoder_inv:
  "open_socket_has_channel s \<Longrightarrow> SetEncoder d b r encoder s = Inr s' \<Longrightarrow>
   open_socket_has_channel s'"
  by (auto simp add: SetEncoder_def RUN_ON_VOIP_THREAD_def SetEncoder_loop_inv
      split: if_splits option.splits)

lemma SetDecoders_inv:
  "open_socket_has_channel s \<Longrightarrow> SetDecoders d b r decoders s = Inr s' \<Longrightarrow>
   open_socket_has_channel s'"
  by (auto simp add: SetDecoders_def RUN_ON_VOIP_THREAD_def Let_def
      split: if_splits option.splits sum.splits)

lemma SetAddress_inv:
  "open_socket_has_channel s \<Longrightarrow> SetLocalAddress b ip port s = Inr s' \<Longrightarrow>
   open_socket_has_channel s'"
  "open_socket_has_channel s \<Longrightarrow> SetRemoteAddress b ip port s = Inr s' \<Longrightarrow>
   open_socket_has_channel s'"
  by (auto simp add: SetLocalAddress_def SetRemoteAddress_def RUN_ON_VOIP_THREAD_def
      open_socket_has_channel_def PostTask_def split: if_splits)

lemma StartSession_inv:
  "open_socket_has_channel s \<Longrightarrow> StartSession b ch rtp_ok rtcp_ok s = Inr s' \<Longrightarrow>
   open_socket_has_channel s'"
  by (cases b) (auto simp add: StartSession_on_thread off_thread open_socket_has_channel_def)

lemma StopSession_inv:
  "open_socket_has_channel s \<Longrightarrow> StopSession b r1 r2 r3 s = Inr s' \<Longrightarrow>
   open_socket_has_channel s'"
  by (cases b)
     (auto simp add: StopSession_def RUN_ON_VOIP_THREAD_def Let_def open_socket_has_channel_def
       is_open_def notify_def emit_def PostTask_def split: if_splits option.splits)

lemma toggle_inv:
  "open_socket_has_channel s \<Longrightarrow> toggle f g r s = Inr s' \<Longrightarrow> open_socket_has_channel s'"
  by (auto simp add: toggle_def split: option.splits)

lemma toggles_inv:
  "open_socket_has_channel s \<Longrightarrow> StartSend b r s = Inr s' \<Longrightarrow> open_socket_has_channel s'"
  "open_socket_has_channel s \<Longrightarrow> StopSend b r s = Inr s' \<Longrightarrow> open_socket_has_channel s'"
  "open_socket_has_channel s \<Longrightarrow> StartPlayout b r s = Inr s' \<Longrightarrow> open_socket_has_channel s'"
  "open_socket_has_channel s \<Longrightarrow> StopPlayout b r s = Inr s' \<Longrightarrow> open_socket_has_channel s'"
  by (auto simp add: StartSend_def StopSend_def StartPlayout_def StopPlayout_def
      RUN_ON_VOIP_THREAD_def dest: toggle_inv split: if_splits)

lemma call_inv:
  "open_socket_has_channel s \<Longrightarrow> call w b m s = Inr s' \<Longrightarrow> open_socket_has_channel s'"
  by (cases m)
     (auto dest: SetEncoder_inv SetDecoders_inv SetAddress_inv StartSession_inv StopSession_inv
       toggles_inv)

lemma packet_task_inv:
  "open_socket_has_channel s \<Longrightarrow> SendRtpPacket ret p s = Inr s' \<Longrightarrow> open_socket_has_channel s'"
  "open_socket_has_channel s \<Longrightarrow> SendRtcpPacket ret p s = Inr s' \<Longrightarrow> open_socket_has_channel s'"
  "open_socket_has_channel s \<Longrightarrow> ReadRTPPacket r p s = Inr s' \<Longrightarrow> open_socket_has_channel s'"
  "open_socket_has_channel s \<Longrightarrow> ReadRTCPPacket r p s = Inr s' \<Longrightarrow> open_socket_has_channel s'"
  by (auto simp add: SendRtpPacket_def SendRtcpPacket_def ReadRTPPacket_def ReadRTCPPacket_def
      Let_def split: option.splits if_splits)

lemma run_task_inv:
  "open_socket_has_channel s \<Longrightarrow> run_task w t s = Inr s' \<Longrightarrow> open_socket_has_channel s'"
  by (cases t) (auto dest: call_inv packet_task_inv)

lemma run_head_inv:
  "open_socket_has_channel s \<Longrightarrow> run_task w t (s\<lparr>queue := q\<rparr>) = Inr s' \<Longrightarrow>
   open_socket_has_channel s'"
  using run_task_inv [of "s\<lparr>queue := q\<rparr>" w t s'] by simp

lemma step_inv:
  "open_socket_has_channel s \<Longrightarrow> step w a s = Inr s' \<Longrightarrow> open_socket_has_channel s'"
  by (cases a)
     (auto simp add: SendRtp_def SendRtcp_def OnSignalReadRTPPacket_def
       OnSignalReadRTCPPacket_def Let_def dest: call_inv run_head_inv split: list.splits)

lemma run_inv:
  "open_socket_has_channel s \<Longrightarrow> run steps s = Inr s' \<Longrightarrow> open_socket_has_channel s'"
proof (induction steps arbitrary: s)
  case Nil
  then show ?case by simp
next
  case (Cons x steps)
  obtain w a where x: "x = (w, a)" by (cases x)
  from Cons.prems(2) x obtain s1 where s1: "step w a s = Inr s1" and rest: "run steps s1 = Inr s'"
    by (auto split: sum.splits)
  from step_inv [OF Cons.prems(1) s1] rest show ?case
    by (rule Cons.IH)
qed

lemma Create_inv: "open_socket_has_channel (Create codecs)"
  by (simp add: open_socket_has_channel_def Create_def is_open_def)

section \<open>Codec tables and maps\<close>

lemma GetPayloadType_table:
  "map_of spec_payload_table n = Some pt \<Longrightarrow> GetPayloadType d n = Inr pt"
  by (auto simp add: spec_payload_table_def GetPayloadType_def split: if_splits)

lemma map_insert_keys:
  "fst ` set (map_insert m k v) = insert k (fst ` set m)"
proof (induction m)
  case Nil
  show ?case by simp
next
  case (Cons e m)
  obtain k' v' where "e = (k', v')" by (cases e)
  with Cons show ?case
    by (cases "k = k'"; cases "k < k'") (simp_all add: insert_commute)
qed

lemma map_insert_sorted:
  "sorted_wrt (<) (map fst m) \<Longrightarrow> sorted_wrt (<) (map fst (map_insert m k v))"
proof (induction m)
  case Nil
  then show ?case by simp
next
  case (Cons e m)
  have "set (map fst (map_insert m k v)) = insert k (set (map fst m))"
    using map_insert_keys [of m k v] by simp
  with Cons show ?case
    by (cases e) auto
qed

lemma map_of_map_insert:
  "sorted_wrt (<) (map fst m) \<Longrightarrow>
   map_of (map_insert m k v) = (case map_of m k of None \<Rightarrow> (map_of m)(k \<mapsto> v) | Some _ \<Rightarrow> map_of m)"
proof (induction m)
  case Nil
  then show ?case by simp
next
  case (Cons e m)
  obtain k' v' where e: "e = (k', v')" by (cases e)
  show ?case
  proof (cases "k = k'")
    case True
    with e show ?thesis by simp
  next
    case False
    note neq = this
    show ?thesis
    proof (cases "k < k'")
      case True
      with Cons.prems e have "k \<notin> fst ` set m"
        by force
      then have "map_of m k = None"
        by (simp add: map_of_eq_None_iff)
      with True neq e show ?thesis
        by (auto simp add: fun_eq_iff)
    next
      case False
      with Cons neq e show ?thesis
        by (auto simp add: fun_eq_iff split: option.splits)
    qed
  qed
qed

lemma requested_pairs_Cons:
  "requested_pairs decoders (c # cs) =
     (case map_of spec_payload_table (name (format c)) of
        None \<Rightarrow> []
      | Some pt \<Rightarrow> if name (format c) \<in> set decoders then [(pt, format c)] else [])
     @ requested_pairs decoders cs"
  by (simp add: requested_pairs_def)

lemma SetDecoders_loop_map:
  assumes "\<forall>c \<in> set cs. name (format c) \<in> fst ` set spec_payload_table"
    and "sorted_wrt (<) (map fst m)"
  shows "\<exists>m'. SetDecoders_loop d decoders cs m = Inr m' \<and> sorted_wrt (<) (map fst m') \<and>
           map_of m' = map_of (requested_pairs decoders cs) ++ map_of m"
  using assms
proof (induction cs arbitrary: m)
  case Nil
  then show ?case by (simp add: requested_pairs_def)
next
  case (Cons c cs)
  from Cons.prems(1) obtain pt where pt: "map_of spec_payload_table (name (format c)) = Some pt"
    by (cases "map_of spec_payload_table (name (format c))") (auto simp add: map_of_eq_None_iff)
  have rest: "\<forall>c \<in> set cs. name (format c) \<in> fst ` set spec_payload_table"
    using Cons.prems(1) by simp
  show ?case
  proof (cases "name (format c) \<in> set decoders")
    case False
    with Cons.IH [OF rest Cons.prems(2)] pt show ?thesis
      by (simp add: requested_pairs_Cons)
  next
    case True
    let ?m1 = "map_insert m pt (format c)"
    have sorted1: "sorted_wrt (<) (map fst ?m1)"
      using Cons.prems(2) by (rule map_insert_sorted)
    from Cons.IH [OF rest sorted1] obtain m' where
      loop: "SetDecoders_loop d decoders cs ?m1 = Inr m'" and
      sorted': "sorted_wrt (<) (map fst m')" and
      maps: "map_of m' = map_of (requested_pairs decoders cs) ++ map_of ?m1"
      by blast
    have "map_of (requested_pairs decoders cs) ++ map_of ?m1 =
          map_of (requested_pairs decoders (c # cs)) ++ map_of m"
      using pt True
      by (auto simp add: requested_pairs_Cons map_of_map_insert [OF Cons.prems(2)] fun_eq_iff
          map_add_def split: option.splits)
    with loop sorted' maps True pt show ?thesis
      by (simp add: GetPayloadType_table)
  qed
qed

lemma SetEncoder_loop_find:
  "SetEncoder_loop d r encoder ch cs s =
     (case find (\<lambda>c. name (format c) = encoder) cs of
        None \<Rightarrow> Inr s
      | Some c \<Rightarrow>
          (case GetPayloadType d encoder of
             Inl f \<Rightarrow> Inl (f, s)
           | Inr pt \<Rightarrow>
               if r = kOk then Inr (emit (Engine_SetSendCodec ch pt (format c)) s)
               else Inl (CheckFailed, emit (Engine_SetSendCodec ch pt (format c)) s)))"
  by (induction cs) (auto simp add: Let_def split: sum.splits)

lemma find_first:
  "find P xs = Some x \<Longrightarrow> P x \<and> x \<in> set xs"
  by (induction xs) (auto split: if_splits)

lemma find_in_names:
  "encoder \<in> set (map (\<lambda>spec. name (format spec)) cs) \<Longrightarrow>
   \<exists>c. find (\<lambda>c. name (format c) = encoder) cs = Some c"
  by (induction cs) auto

text \<open>Every name of \<open>builtin_codecs\<close> is in the table of payload types.\<close>

lemma builtin_names:
  "\<forall>c \<in> set (supported_codecs running_session).
     name (format c) \<in> fst ` set spec_payload_table"
  by (simp add: running_session_def builtin_codecs_def codec_def spec_payload_table_def)

section \<open>Properties of the address setters\<close>

text \<open>
  Claim C7. For every \<open>ip\<close> and \<open>port\<close>, \<^verbatim>\<open>SetLocalAddress\<close> run on the thread
  returns the state in which the local rtp address is \<open>(ip, port)\<close> and the local
  rtcp address is \<open>(ip, port + 1)\<close>, and \<^verbatim>\<open>SetRemoteAddress\<close> does the same for
  the two remote addresses. Nothing is checked and every other member, the queue
  and the trace stay as they were. Called off the thread, each setter only posts
  itself, and the posted task is that same update.
\<close>

theorem SetAddress_stores_rtp_and_rtcp_endpoints:
  "SetLocalAddress True ip port s =
     Inr (s\<lparr>rtp_local_address := SocketAddress ip port,
            rtcp_local_address := SocketAddress ip (port + 1)\<rparr>) \<and>
   SetRemoteAddress True ip port s =
     Inr (s\<lparr>rtp_remote_address := SocketAddress ip port,
            rtcp_remote_address := SocketAddress ip (port + 1)\<rparr>) \<and>
   SetLocalAddress False ip port s = Inr (PostTask (Bound (SetLocalAddress_call ip port)) s) \<and>
   SetRemoteAddress False ip port s = Inr (PostTask (Bound (SetRemoteAddress_call ip port)) s) \<and>
   run_task w (Bound (SetLocalAddress_call ip port)) s = SetLocalAddress True ip port s \<and>
   run_task w (Bound (SetRemoteAddress_call ip port)) s = SetRemoteAddress True ip port s"
  by (simp add: SetLocalAddress_def SetRemoteAddress_def RUN_ON_VOIP_THREAD_def)

section \<open>Properties of StopSession\<close>

text \<open>
  Claim C1. In every state with a channel and both sockets, when the engine
  answers \<^verbatim>\<open>kOk\<close> to \<^verbatim>\<open>StopSend\<close>, \<^verbatim>\<open>StopPlayout\<close> and \<^verbatim>\<open>ReleaseChannel\<close>,
  \<^verbatim>\<open>StopSession\<close> closes both sockets, releases the channel and clears the handle,
  as the claim says; but the value it hands to \<^verbatim>\<open>OnStopSessionCompleted\<close> is
  \<open>false\<close>, where the claim says \<open>true\<close>.
\<close>

theorem StopSession_reports_false_on_success:
  assumes "channel s = Some ch" and "rtp_socket s = Some rtp" and "rtcp_socket s = Some rtcp"
  shows "StopSession True kOk kOk kOk s =
     Inr (notify (Callback_OnStopSessionCompleted False)
       (s\<lparr>channel := None,
          rtp_socket := Some (rtp\<lparr>is_closed := True\<rparr>),
          rtcp_socket := Some (rtcp\<lparr>is_closed := True\<rparr>),
          trace := trace s @ [Engine_StopSend ch, Engine_StopPlayout ch, Socket_Close RTP,
                              Socket_Close RTCP, Engine_ReleaseChannel ch]\<rparr>))"
  using assms by (rule StopSession_on_thread_ok)

theorem StopSession_reports_false_on_success_witness:
  "channel running_session = Some 1 \<and> callback running_session \<and>
   trace (state_of (StopSession True kOk kOk kOk running_session)) =
     trace running_session @
       [Engine_StopSend 1, Engine_StopPlayout 1, Socket_Close RTP, Socket_Close RTCP,
        Engine_ReleaseChannel 1, Callback_OnStopSessionCompleted False]"
  using StopSession_reports_false_on_success [of running_session 1
      "\<lparr>bind_address = SocketAddress ''127.0.0.1'' 10000,
        SignalReadPacket = Some OnSignalReadRTPPacket_slot, is_closed = False\<rparr>"
      "\<lparr>bind_address = SocketAddress ''127.0.0.1'' 10001,
        SignalReadPacket = Some OnSignalReadRTCPPacket_slot, is_closed = False\<rparr>"]
  by (simp add: running_session_def notify_def emit_def state_of_def)

text \<open>
  Claim C10. From any state, a \<^verbatim>\<open>StartSession\<close> whose rtp socket creation fails
  returns with the channel handle set and the rtp socket pointer null. A
  \<^verbatim>\<open>StopSession\<close> in that state, with \<^verbatim>\<open>StopSend\<close> and \<^verbatim>\<open>StopPlayout\<close> answering
  \<^verbatim>\<open>kOk\<close>, passes its only guard and dereferences the null pointer at
  \<^verbatim>\<open>rtp_socket_->Close()\<close>. The same happens in a run from a fresh client in
  which both calls are posted from another thread and then run.
\<close>

theorem StopSession_dereferences_null_rtp_socket:
  "(\<exists>s1. StartSession True ch False rtcp_ok s = Inr s1 \<and> channel s1 = Some ch \<and>
        rtp_socket s1 = None \<and>
        StopSession True kOk kOk release s1 =
          Inl (NullDereference, emit (Engine_StopPlayout ch) (emit (Engine_StopSend ch) s1))) \<and>
   fault_of (run [(rtp_bind_fails, Invoke StartSession_call), (rtp_bind_fails, RunTask),
                  (all_ok, Invoke StopSession_call), (all_ok, RunTask)] (Create codecs))
     = Some NullDereference"
  by (simp add: StartSession_on_thread off_thread StopSession_null_rtp new_socket_def
      connect_def emit_def notify_def PostTask_def Create_def all_ok_def rtp_bind_fails_def
      fault_of_def)

section \<open>Properties of StartSession\<close>

text \<open>
  Claim C2, as stated: in a state with a channel, \<^verbatim>\<open>StartSession\<close> tells the
  subscriber \<open>false\<close> and changes no member. It fails on the running session when
  the rtp socket cannot be bound again: \<open>false\<close> is reported, but the channel
  handle is now the new channel and the rtp socket pointer is null.
\<close>

theorem StartSession_while_active_counterexample:
  "channel running_session = Some 1 \<and>
   \<not> StartSession_rejected running_session (StartSession True 2 False True running_session) \<and>
   channel (state_of (StartSession True 2 False True running_session)) = Some 2 \<and>
   rtp_socket (state_of (StartSession True 2 False True running_session)) = None"
  by (simp add: StartSession_on_thread StartSession_rejected_def same_members_def state_of_def
      running_session_def notify_def emit_def new_socket_def connect_def)

text \<open>
  Claim C2, amended. \<^verbatim>\<open>StartSession\<close> has no guard on the channel. In a state
  that already has one it asks the engine for a new channel and stores it over
  the old handle, which is not released; it creates the rtp socket anew, and the
  rtcp socket too when the rtp socket was created; it reports \<open>true\<close> when both
  creations succeed and \<open>false\<close> otherwise. The addresses, the codec list, the
  subscriber and the queue are left as they were.
\<close>

theorem StartSession_while_active_restarts:
  assumes "channel s = Some old"
  shows "StartSession True ch rtp_ok rtcp_ok s =
     Inr (notify (Callback_OnStartSessionCompleted (rtp_ok \<and> rtcp_ok))
       (s\<lparr>channel := Some ch,
          rtp_socket :=
            connect OnSignalReadRTPPacket_slot (new_socket (rtp_local_address s) rtp_ok),
          rtcp_socket :=
            (if rtp_ok
             then connect OnSignalReadRTCPPacket_slot (new_socket (rtcp_local_address s) rtcp_ok)
             else rtcp_socket s),
          trace :=
            trace s @ [Engine_CreateChannel ch, Socket_Create RTP (rtp_local_address s) rtp_ok]
              @ (if rtp_ok then [Socket_Create RTCP (rtcp_local_address s) rtcp_ok] else [])
              @ (if rtp_ok \<and> rtcp_ok then [] else [Log ''Socket creation failed''])\<rparr>))"
  by (rule StartSession_on_thread)

theorem StartSession_while_active_restarts_witness:
  "channel running_session = Some 1 \<and>
   channel (state_of (StartSession True 2 True True running_session)) = Some 2 \<and>
   trace (state_of (StartSession True 2 True True running_session)) =
     trace running_session @
       [Engine_CreateChannel 2, Socket_Create RTP (SocketAddress ''127.0.0.1'' 10000) True,
        Socket_Create RTCP (SocketAddress ''127.0.0.1'' 10001) True,
        Callback_OnStartSessionCompleted True]"
proof -
  have active: "channel running_session = Some 1"
    by (simp add: running_session_def)
  show ?thesis
    using active StartSession_while_active_restarts [OF active, of 2 True True]
    by (simp add: running_session_def notify_def emit_def state_of_def)
qed

text \<open>
  Claim C4. Whenever the rtp or the rtcp socket cannot be created,
  \<^verbatim>\<open>StartSession\<close> returns; the last thing it does is
  \<^verbatim>\<open>OnStartSessionCompleted(false)\<close> on the subscriber, if one is attached, and
  \<open>true\<close> is not reported; the session is not started, in that the pointer of the
  socket that failed is null; and the channel of step 1 is still the client's
  handle, with no \<^verbatim>\<open>ReleaseChannel\<close> among the calls made.
\<close>

theorem StartSession_socket_failure_leaks_channel:
  assumes "\<not> (rtp_ok \<and> rtcp_ok)"
  shows "fault_of (StartSession True ch rtp_ok rtcp_ok s) = None \<and>
     trace (state_of (StartSession True ch rtp_ok rtcp_ok s)) =
       trace s @ [Engine_CreateChannel ch, Socket_Create RTP (rtp_local_address s) rtp_ok]
        @ (if rtp_ok then [Socket_Create RTCP (rtcp_local_address s) rtcp_ok] else [])
        @ [Log ''Socket creation failed'']
        @ (if callback s then [Callback_OnStartSessionCompleted False] else []) \<and>
     channel (state_of (StartSession True ch rtp_ok rtcp_ok s)) = Some ch \<and>
     \<not> (present (rtp_socket (state_of (StartSession True ch rtp_ok rtcp_ok s))) \<and>
        present (rtcp_socket (state_of (StartSession True ch rtp_ok rtcp_ok s))))"
  using assms
  by (auto simp add: StartSession_on_thread notify_def emit_def new_socket_def connect_def
      present_def state_of_def fault_of_def)

theorem StartSession_socket_failure_leaks_channel_witness:
  "callback running_session \<and>
   fault_of (StartSession True 2 True False running_session) = None \<and>
   trace (state_of (StartSession True 2 True False running_session)) =
     trace running_session @
       [Engine_CreateChannel 2, Socket_Create RTP (SocketAddress ''127.0.0.1'' 10000) True,
        Socket_Create RTCP (SocketAddress ''127.0.0.1'' 10001) False,
        Log ''Socket creation failed'', Callback_OnStartSessionCompleted False] \<and>
   channel (state_of (StartSession True 2 True False running_session)) = Some 2 \<and>
   \<not> (present (rtp_socket (state_of (StartSession True 2 True False running_session))) \<and>
      present (rtcp_socket (state_of (StartSession True 2 True False running_session))))"
proof -
  have sink: "callback running_session"
    by (simp add: running_session_def)
  have failed: "\<not> (True \<and> False)"
    by simp
  have addr: "rtp_local_address running_session = SocketAddress ''127.0.0.1'' 10000"
    "rtcp_local_address running_session = SocketAddress ''127.0.0.1'' 10001"
    by (simp_all add: running_session_def)
  show ?thesis
    using sink StartSession_socket_failure_leaks_channel [OF failed, of 2 running_session]
    by (simp add: addr)
qed

section \<open>Channel handle and sockets along a run\<close>

text \<open>
  Claim C3, as stated: in every state a run reaches, the channel handle is set
  exactly when both socket pointers are. It fails in both directions. After the
  first \<^verbatim>\<open>StartSession\<close> of a fresh client, when the rtp socket cannot be
  created, the call returns with the channel handle set and the rtp socket
  pointer null. After a session has been started and stopped, the channel
  handle is cleared while both pointers still hold their sockets, now closed.
\<close>

theorem channel_without_socket_counterexample:
  "fault_of (run failed_start (Create builtin_codecs)) = None \<and>
   \<not> channel_iff_sockets (state_of (run failed_start (Create builtin_codecs))) \<and>
   channel (state_of (run failed_start (Create builtin_codecs))) = Some 1 \<and>
   rtp_socket (state_of (run failed_start (Create builtin_codecs))) = None \<and>
   fault_of (run start_then_stop (Create builtin_codecs)) = None \<and>
   \<not> channel_iff_sockets (state_of (run start_then_stop (Create builtin_codecs))) \<and>
   channel (state_of (run start_then_stop (Create builtin_codecs))) = None \<and>
   present (rtp_socket (state_of (run start_then_stop (Create builtin_codecs)))) \<and>
   present (rtcp_socket (state_of (run start_then_stop (Create builtin_codecs))))"
proof -
  have failed:
    "fault_of (run failed_start (Create builtin_codecs)) = None \<and>
     \<not> channel_iff_sockets (state_of (run failed_start (Create builtin_codecs))) \<and>
     channel (state_of (run failed_start (Create builtin_codecs))) = Some 1 \<and>
     rtp_socket (state_of (run failed_start (Create builtin_codecs))) = None"
    by (simp add: failed_start_def rtp_bind_fails_def all_ok_def Create_def off_thread
        StartSession_on_thread PostTask_def notify_def emit_def new_socket_def connect_def
        fault_of_def state_of_def channel_iff_sockets_def present_def)
  have stopped:
    "fault_of (run start_then_stop (Create builtin_codecs)) = None \<and>
     \<not> channel_iff_sockets (state_of (run start_then_stop (Create builtin_codecs))) \<and>
     channel (state_of (run start_then_stop (Create builtin_codecs))) = None \<and>
     present (rtp_socket (state_of (run start_then_stop (Create builtin_codecs)))) \<and>
     present (rtcp_socket (state_of (run start_then_stop (Create builtin_codecs))))"
    by (simp add: start_then_stop_run fault_of_def state_of_def channel_iff_sockets_def
        present_def)
  from failed stopped show ?thesis
    by simp
qed

text \<open>
  Claim C3, amended. In every state that a run of a fresh client reaches,
  whatever the callers, the engine and the sockets do, a socket that is open has
  a channel: when the channel handle is not set, each socket pointer is null or
  holds a socket that has been closed; and every step that returns keeps this
  so. Nothing is said of the sockets while the channel handle is set.
\<close>

theorem open_socket_needs_channel:
  "(run steps (Create codecs) = Inr s \<longrightarrow> open_socket_has_channel s) \<and>
   (open_socket_has_channel s0 \<and> step w a s0 = Inr s1 \<longrightarrow> open_socket_has_channel s1)"
  using Create_inv run_inv step_inv by blast

theorem open_socket_needs_channel_witness:
  "fault_of (run start_then_stop (Create builtin_codecs)) = None \<and>
   channel (state_of (run start_then_stop (Create builtin_codecs))) = None \<and>
   present (rtp_socket (state_of (run start_then_stop (Create builtin_codecs)))) \<and>
   open_socket_has_channel (state_of (run start_then_stop (Create builtin_codecs)))"
proof -
  have returned: "run start_then_stop (Create builtin_codecs) =
      Inr (state_of (run start_then_stop (Create builtin_codecs)))"
    by (simp add: start_then_stop_run state_of_def)
  from open_socket_needs_channel [of start_then_stop builtin_codecs
      "state_of (run start_then_stop (Create builtin_codecs))"] returned
  have "open_socket_has_channel (state_of (run start_then_stop (Create builtin_codecs)))"
    by blast
  then show ?thesis
    by (simp add: start_then_stop_run state_of_def fault_of_def present_def)
qed

section \<open>Properties of the packet tasks\<close>

text \<open>
  Claim C5. The two read tasks check the channel handle when they run and drop
  the packet with a log line when it is not set. The two send tasks check
  nothing: on a client whose socket pointer is null they dereference it, which
  a run reaches when the rtp socket cannot be created, sending is started and the
  engine hands over a packet; and on a socket that \<^verbatim>\<open>StopSession\<close> has closed
  they still call \<^verbatim>\<open>SendTo\<close>.
\<close>

theorem send_task_without_socket_faults:
  "SendRtpPacket ret p (Create codecs) = Inl (NullDereference, Create codecs) \<and>
   SendRtcpPacket ret p (Create codecs) = Inl (NullDereference, Create codecs) \<and>
   ReadRTPPacket r p (Create codecs) =
     Inr (emit (Log ''Channel has not been created'') (Create codecs)) \<and>
   ReadRTCPPacket r p (Create codecs) =
     Inr (emit (Log ''Channel has not been created'') (Create codecs)) \<and>
   fault_of (run (failed_start @
                  [(all_ok, Invoke StartSend_call), (all_ok, RunTask),
                   (all_ok, Engine_SendRtp packet len), (all_ok, RunTask)])
               (Create codecs)) = Some NullDereference \<and>
   SendRtpPacket (- 1) p (state_of (StopSession True kOk kOk kOk running_session)) =
     Inr (emit (Socket_SendTo RTP p (SocketAddress ''127.0.0.1'' 20000))
            (state_of (StopSession True kOk kOk kOk running_session)))"
  by (simp add: SendRtpPacket_def SendRtcpPacket_def ReadRTPPacket_def ReadRTCPPacket_def
      Create_def failed_start_def rtp_bind_fails_def all_ok_def off_thread
      StartSession_on_thread StartSend_def toggle_def RUN_ON_VOIP_THREAD_def SendRtp_def
      PostTask_def notify_def emit_def new_socket_def connect_def fault_of_def state_of_def
      StopSession_on_thread_ok [where ch = 1] running_session_def)

text \<open>
  Claim C6. For every buffer and length, zero included, \<^verbatim>\<open>SendRtp\<close> and
  \<^verbatim>\<open>SendRtcp\<close> return \<open>true\<close> and post one task that holds the bytes at offsets
  \<open>0\<close> to \<open>len - 1\<close> of the buffer, as a value of its own; and when the task runs
  on a client whose socket pointer is set, whatever \<^verbatim>\<open>SendTo\<close> returns, the run
  goes on and no member changes, so nothing goes back to the engine. So far the
  code does what the claim says. The claim also says that a send that fails is
  logged, and there the code differs: the log line is written exactly when the
  \<^verbatim>\<open>int\<close> that \<^verbatim>\<open>SendTo\<close> returns is zero (the test \<^verbatim>\<open>!SendTo(...)\<close>). A send that
  fails, returning a negative value, leaves no log line, and a send that
  returns zero, as one of an empty payload does, is logged as failed.
\<close>

theorem SendRtp_accepts_and_posts_copy:
  "fst (SendRtp packet len s) = True \<and>
   snd (SendRtp packet len s) = s\<lparr>queue := queue s @ [Task_SendRtpPacket (copy_packet packet len)]\<rparr> \<and>
   fst (SendRtcp packet len s) = True \<and>
   snd (SendRtcp packet len s) = s\<lparr>queue := queue s @ [Task_SendRtcpPacket (copy_packet packet len)]\<rparr> \<and>
   length (copy_packet packet len) = len \<and>
   (\<forall>i<len. copy_packet packet len ! i = packet i) \<and>
   copy_packet packet 0 = [] \<and>
   (rtp_socket s \<noteq> None \<longrightarrow>
      run_task w (Task_SendRtpPacket p) s =
        Inr (s\<lparr>trace := trace s @ Socket_SendTo RTP p (rtp_remote_address s) #
                   (if SendTo_result w = 0 then [Log ''Failed to send RTP packet''] else [])\<rparr>)) \<and>
   (rtcp_socket s \<noteq> None \<longrightarrow>
      run_task w (Task_SendRtcpPacket p) s =
        Inr (s\<lparr>trace := trace s @ Socket_SendTo RTCP p (rtcp_remote_address s) #
                   (if SendTo_result w = 0 then [Log ''Failed to send RTCP packet''] else [])\<rparr>)) \<and>
   (rtp_socket s \<noteq> None \<and> SendTo_result w < 0 \<longrightarrow>
      run_task w (Task_SendRtpPacket p) s =
        Inr (s\<lparr>trace := trace s @ [Socket_SendTo RTP p (rtp_remote_address s)]\<rparr>)) \<and>
   (rtcp_socket s \<noteq> None \<and> SendTo_result w < 0 \<longrightarrow>
      run_task w (Task_SendRtcpPacket p) s =
        Inr (s\<lparr>trace := trace s @ [Socket_SendTo RTCP p (rtcp_remote_address s)]\<rparr>))"
  by (auto simp add: SendRtp_def SendRtcp_def PostTask_def copy_packet_def SendRtpPacket_def
      SendRtcpPacket_def emit_def Let_def)

theorem SendRtp_accepts_and_posts_copy_witness:
  "rtp_socket running_session \<noteq> None \<and>
   SendRtp (\<lambda>i. of_nat i) 3 running_session =
     (True, running_session\<lparr>queue := [Task_SendRtpPacket [0, 1, 2]]\<rparr>) \<and>
   SendRtp (\<lambda>i. of_nat i) 0 running_session =
     (True, running_session\<lparr>queue := [Task_SendRtpPacket []]\<rparr>) \<and>
   run_task send_fails (Task_SendRtpPacket [0, 1, 2]) running_session =
     Inr (running_session\<lparr>trace := trace running_session @
            [Socket_SendTo RTP [0, 1, 2] (SocketAddress ''127.0.0.1'' 20000)]\<rparr>) \<and>
   run_task (all_ok\<lparr>SendTo_result := 0\<rparr>) (Task_SendRtpPacket []) running_session =
     Inr (running_session\<lparr>trace := trace running_session @
            [Socket_SendTo RTP [] (SocketAddress ''127.0.0.1'' 20000),
             Log ''Failed to send RTP packet'']\<rparr>)"
proof -
  have sock: "rtp_socket running_session \<noteq> None"
    by (simp add: running_session_def)
  have rest: "queue running_session = []"
    "rtp_remote_address running_session = SocketAddress ''127.0.0.1'' 20000"
    "SendTo_result send_fails = - 1" "SendTo_result (all_ok\<lparr>SendTo_result := 0\<rparr>) = 0"
    by (simp_all add: running_session_def send_fails_def all_ok_def)
  have copies: "copy_packet (\<lambda>i. of_nat i) 3 = [0, 1, 2]" "copy_packet (\<lambda>i. of_nat i) 0 = []"
    by (simp_all add: copy_packet_def upt_rec)
  from SendRtp_accepts_and_posts_copy [of "\<lambda>i. of_nat i" 3 running_session send_fails "[0, 1, 2]"]
    SendRtp_accepts_and_posts_copy [of "\<lambda>i. of_nat i" 0 running_session
      "all_ok\<lparr>SendTo_result := 0\<rparr>" "[]"]
  show ?thesis
    using sock by (simp add: rest copies prod_eq_iff)
qed

section \<open>Properties of codec selection\<close>

text \<open>
  Claim C8. With a channel, \<^verbatim>\<open>SetEncoder\<close> of a name that no supported codec has
  returns the state as it was: no call, no log line. For a name that a supported
  codec has and that the table of payload types lists, it makes one
  \<^verbatim>\<open>SetSendCodec\<close> call, with the channel, the table's payload type for the name
  and the format of the first supported codec of that name, and nothing else;
  the run goes on when the engine answers \<^verbatim>\<open>kOk\<close> and aborts at \<^verbatim>\<open>RTC_CHECK\<close>
  otherwise.
\<close>

theorem SetEncoder_sends_first_matching_codec:
  assumes "channel s = Some ch"
  shows "(encoder \<notin> set (GetSupportedCodecs s) \<longrightarrow> SetEncoder d True r encoder s = Inr s) \<and>
    (encoder \<in> set (GetSupportedCodecs s) \<and> map_of spec_payload_table encoder = Some pt \<longrightarrow>
       (\<exists>c. find (\<lambda>c. name (format c) = encoder) (supported_codecs s) = Some c \<and>
            c \<in> set (supported_codecs s) \<and> name (format c) = encoder \<and>
            SetEncoder d True r encoder s =
              (if r = kOk
               then Inr (s\<lparr>trace := trace s @ [Engine_SetSendCodec ch pt (format c)]\<rparr>)
               else Inl (CheckFailed,
                         s\<lparr>trace := trace s @ [Engine_SetSendCodec ch pt (format c)]\<rparr>))))"
proof (intro conjI impI)
  assume "encoder \<notin> set (GetSupportedCodecs s)"
  then have "find (\<lambda>c. name (format c) = encoder) (supported_codecs s) = None"
    by (auto simp add: GetSupportedCodecs_def find_None_iff)
  with assms show "SetEncoder d True r encoder s = Inr s"
    by (simp add: SetEncoder_def RUN_ON_VOIP_THREAD_def SetEncoder_loop_find)
next
  assume a: "encoder \<in> set (GetSupportedCodecs s) \<and> map_of spec_payload_table encoder = Some pt"
  then obtain c where c: "find (\<lambda>c. name (format c) = encoder) (supported_codecs s) = Some c"
    using find_in_names [of encoder "supported_codecs s"]
    by (auto simp add: GetSupportedCodecs_def)
  from a have pt: "GetPayloadType d encoder = Inr pt"
    by (simp add: GetPayloadType_table)
  have "SetEncoder d True r encoder s =
          (if r = kOk
           then Inr (s\<lparr>trace := trace s @ [Engine_SetSendCodec ch pt (format c)]\<rparr>)
           else Inl (CheckFailed,
                     s\<lparr>trace := trace s @ [Engine_SetSendCodec ch pt (format c)]\<rparr>))"
    using assms c pt
    by (simp add: SetEncoder_def RUN_ON_VOIP_THREAD_def SetEncoder_loop_find emit_def)
  with c find_first [OF c]
  show "\<exists>c. find (\<lambda>c. name (format c) = encoder) (supported_codecs s) = Some c \<and>
            c \<in> set (supported_codecs s) \<and> name (format c) = encoder \<and>
            SetEncoder d True r encoder s =
              (if r = kOk
               then Inr (s\<lparr>trace := trace s @ [Engine_SetSendCodec ch pt (format c)]\<rparr>)
               else Inl (CheckFailed,
                         s\<lparr>trace := trace s @ [Engine_SetSendCodec ch pt (format c)]\<rparr>))"
    by blast
qed

theorem SetEncoder_sends_first_matching_codec_witness:
  "channel running_session = Some 1 \<and>
   ''L16'' \<notin> set (GetSupportedCodecs running_session) \<and>
   SetEncoder False True kOk ''L16'' running_session = Inr running_session \<and>
   ''ISAC'' \<in> set (GetSupportedCodecs running_session) \<and>
   map_of spec_payload_table ''ISAC'' = Some 97 \<and>
   SetEncoder False True kOk ''ISAC'' running_session =
     Inr (running_session\<lparr>trace := trace running_session @
            [Engine_SetSendCodec 1 97 (format (codec ''ISAC'' 16000 1))]\<rparr>)"
proof -
  have active: "channel running_session = Some 1"
    by (simp add: running_session_def)
  have names: "''L16'' \<notin> set (GetSupportedCodecs running_session)"
    "''ISAC'' \<in> set (GetSupportedCodecs running_session)"
    by (simp_all add: GetSupportedCodecs_def running_session_def builtin_codecs_def codec_def)
  have table: "map_of spec_payload_table ''ISAC'' = Some 97"
    by (simp add: spec_payload_table_def)
  have first: "find (\<lambda>c. name (format c) = ''ISAC'') (supported_codecs running_session) =
      Some (codec ''ISAC'' 16000 1)"
    by (simp add: running_session_def builtin_codecs_def codec_def)
  from SetEncoder_sends_first_matching_codec [OF active, of "''L16''" False kOk] names
  have absent: "SetEncoder False True kOk ''L16'' running_session = Inr running_session"
    by simp
  from SetEncoder_sends_first_matching_codec [OF active, of "''ISAC''" False kOk 97] names table first
  have "SetEncoder False True kOk ''ISAC'' running_session =
     Inr (running_session\<lparr>trace := trace running_session @
            [Engine_SetSendCodec 1 97 (format (codec ''ISAC'' 16000 1))]\<rparr>)"
    by auto
  with active names table absent show ?thesis
    by simp
qed

text \<open>
  Claim C9, as stated: the map of the one \<^verbatim>\<open>SetReceiveCodecs\<close> call holds exactly
  the pairs of payload type and format of the supported codecs whose name was
  asked for. It fails on a codec list with two entries of one name: asked for
  ISAC, the map binds 97 to the 16 kHz format only, and the pair of 97 and the
  32 kHz format is missing.
\<close>

theorem SetDecoders_exact_pairs_counterexample:
  "channel running_session = Some 1 \<and>
   SetDecoders False True kOk [''ISAC''] running_session =
     Inr (emit (Engine_SetReceiveCodecs 1 [(97, format (codec ''ISAC'' 16000 1))])
            running_session) \<and>
   (97, format (codec ''ISAC'' 32000 1))
     \<in> set (requested_pairs [''ISAC''] (supported_codecs running_session)) \<and>
   \<not> exactly_requested [(97, format (codec ''ISAC'' 16000 1))] [''ISAC'']
        (supported_codecs running_session)"
  by (simp add: SetDecoders_def RUN_ON_VOIP_THREAD_def running_session_def builtin_codecs_def
      codec_def GetPayloadType_def exactly_requested_def requested_pairs_def
      spec_payload_table_def emit_def)

text \<open>
  Claim C9, amended. With a channel and a codec list whose names are all in the
  table of payload types, \<^verbatim>\<open>SetDecoders\<close> makes one \<^verbatim>\<open>SetReceiveCodecs\<close> call
  and nothing else. The keys of its map are exactly the payload types of the
  supported codecs whose name was asked for; each key is bound to the format of
  the first such codec in the list, since \<^verbatim>\<open>insert\<close> keeps an existing entry;
  every entry of the map is one of the pairs asked for, and the map holds all of
  them when no two of them share a payload type. Names that no supported codec
  has add nothing.
\<close>

theorem SetDecoders_first_entry_per_payload_type:
  assumes "channel s = Some ch"
    and "\<forall>c \<in> set (supported_codecs s). name (format c) \<in> fst ` set spec_payload_table"
  shows "\<exists>m. SetDecoders d True r decoders s =
           (if r = kOk then Inr (s\<lparr>trace := trace s @ [Engine_SetReceiveCodecs ch m]\<rparr>)
            else Inl (CheckFailed, s\<lparr>trace := trace s @ [Engine_SetReceiveCodecs ch m]\<rparr>)) \<and>
         sorted_wrt (<) (map fst m) \<and>
         map_of m = map_of (requested_pairs decoders (supported_codecs s)) \<and>
         fst ` set m = fst ` set (requested_pairs decoders (supported_codecs s)) \<and>
         set m \<subseteq> set (requested_pairs decoders (supported_codecs s)) \<and>
         (distinct (map fst (requested_pairs decoders (supported_codecs s))) \<longrightarrow>
            set m = set (requested_pairs decoders (supported_codecs s)))"
proof -
  from SetDecoders_loop_map [OF assms(2), of "[]" d decoders]
  obtain m where loop: "SetDecoders_loop d decoders (supported_codecs s) [] = Inr m"
    and sorted: "sorted_wrt (<) (map fst m)"
    and maps: "map_of m = map_of (requested_pairs decoders (supported_codecs s))"
    by auto
  let ?req = "requested_pairs decoders (supported_codecs s)"
  have call: "SetDecoders d True r decoders s =
           (if r = kOk then Inr (s\<lparr>trace := trace s @ [Engine_SetReceiveCodecs ch m]\<rparr>)
            else Inl (CheckFailed, s\<lparr>trace := trace s @ [Engine_SetReceiveCodecs ch m]\<rparr>))"
    using assms(1) loop by (simp add: SetDecoders_def RUN_ON_VOIP_THREAD_def emit_def)
  have dist: "distinct (map fst m)"
    using sorted by (simp add: strict_sorted_iff)
  have keys: "fst ` set m = fst ` set ?req"
    using maps by (metis dom_map_of_conv_image_fst)
  have sub: "set m \<subseteq> set ?req"
  proof
    fix e assume "e \<in> set m"
    then have "map_of m (fst e) = Some (snd e)"
      using dist by simp
    then have "map_of ?req (fst e) = Some (snd e)"
      by (simp add: maps)
    then show "e \<in> set ?req"
      using map_of_SomeD by fastforce
  qed
  have exact: "distinct (map fst ?req) \<longrightarrow> set m = set ?req"
    using dist maps map_of_inject_set [of m ?req] by blast
  from call sorted maps keys sub exact show ?thesis
    by blast
qed

theorem SetDecoders_first_entry_per_payload_type_witness:
  "channel running_session = Some 1 \<and>
   SetDecoders False True kOk [''ISAC'', ''foo'', ''opus''] running_session =
     Inr (running_session\<lparr>trace := trace running_session @
       [Engine_SetReceiveCodecs 1
          [(96, format (codec ''opus'' 48000 2)), (97, format (codec ''ISAC'' 16000 1))]]\<rparr>) \<and>
   map_of [(96, format (codec ''opus'' 48000 2)), (97, format (codec ''ISAC'' 16000 1))] =
     map_of (requested_pairs [''ISAC'', ''foo'', ''opus''] (supported_codecs running_session))"
proof -
  have active: "channel running_session = Some 1"
    by (simp add: running_session_def)
  have run: "SetDecoders False True kOk [''ISAC'', ''foo'', ''opus''] running_session =
     Inr (running_session\<lparr>trace := trace running_session @
       [Engine_SetReceiveCodecs 1
          [(96, format (codec ''opus'' 48000 2)), (97, format (codec ''ISAC'' 16000 1))]]\<rparr>)"
    by (simp add: SetDecoders_def RUN_ON_VOIP_THREAD_def running_session_def builtin_codecs_def
      codec_def GetPayloadType_def emit_def)
  from SetDecoders_first_entry_per_payload_type [OF active builtin_names, of False kOk
      "[''ISAC'', ''foo'', ''opus'']"]
  obtain m where
    m: "SetDecoders False True kOk [''ISAC'', ''foo'', ''opus''] running_session =
          Inr (running_session\<lparr>trace := trace running_session @ [Engine_SetReceiveCodecs 1 m]\<rparr>)"
    and maps: "map_of m =
      map_of (requested_pairs [''ISAC'', ''foo'', ''opus''] (supported_codecs running_session))"
    by auto
  from m run have
    "running_session\<lparr>trace := trace running_session @ [Engine_SetReceiveCodecs 1 m]\<rparr> =
     running_session\<lparr>trace := trace running_session @
       [Engine_SetReceiveCodecs 1
          [(96, format (codec ''opus'' 48000 2)), (97, format (codec ''ISAC'' 16000 1))]]\<rparr>"
    by simp
  then have "trace (running_session\<lparr>trace := trace running_session @ [Engine_SetReceiveCodecs 1 m]\<rparr>) =
     trace (running_session\<lparr>trace := trace running_session @
       [Engine_SetReceiveCodecs 1
          [(96, format (codec ''opus'' 48000 2)), (97, format (codec ''ISAC'' 16000 1))]]\<rparr>)"
    by (rule arg_cong)
  then have "m = [(96, format (codec ''opus'' 48000 2)), (97, format (codec ''ISAC'' 16000 1))]"
    by simp
  with active run maps show ?thesis
    by simp
qed

end
